theory Spec2Isabelle
  imports Complex_Main
begin

section \<open>Data model\<close>

text \<open>
  Timestamps are epoch seconds (\<open>pd.to_datetime(df["time"], unit="s")\<close> of the terminal's
  integer \<open>time\<close> field), so they are never null. A price cell is a float that may be
  missing (NaN): \<open>None\<close> stands for the missing value; prices are only carried around,
  never computed with.
\<close>

type_synonym price = "real option"

text \<open>One element of the structured array returned by the terminal (\<open>copy_rates_*\<close>).\<close>

record rate =
  time :: int
  r_open :: price
  r_high :: price
  r_low :: price
  r_close :: price
  tick_volume :: int
  r_spread :: int
  r_real_volume :: int

text \<open>One row of a persisted dataset: the canonical output columns of \<open>config.py\<close>
  (\<open>OUTPUT_COLUMNS\<close> followed by \<open>OPTIONAL_COLUMNS\<close>).\<close>

record bar =
  timestamp :: int
  b_open :: price
  b_high :: price
  b_low :: price
  b_close :: price
  volume :: int
  spread :: int
  real_volume :: int

section \<open>config.py\<close>

definition MAX_BARS_PER_REQUEST :: int where
  "MAX_BARS_PER_REQUEST = 99999"

definition MAX_HISTORICAL_ATTEMPTS :: nat where
  "MAX_HISTORICAL_ATTEMPTS = 10"

definition REMOVE_DUPLICATES :: bool where
  "REMOVE_DUPLICATES = True"

definition FX_SYMBOLS :: "string list" where
  "FX_SYMBOLS = [''EURUSD'', ''USDJPY'', ''GBPUSD'', ''EURGBP'', ''USDCAD'', ''AUDNZD'']"

definition INDEX_SYMBOLS :: "string list" where
  "INDEX_SYMBOLS = [''US30'', ''XAUUSD'']"

definition SYMBOL_ALTERNATIVES :: "(string \<times> string list) list" where
  "SYMBOL_ALTERNATIVES =
    [(''EURUSD'', [''EURUSD'', ''EURUSD.a'', ''EURUSDm'', ''EURUSD.'']),
     (''USDJPY'', [''USDJPY'', ''USDJPY.a'', ''USDJPYm'', ''USDJPY.'']),
     (''GBPUSD'', [''GBPUSD'', ''GBPUSD.a'', ''GBPUSDm'', ''GBPUSD.'']),
     (''EURGBP'', [''EURGBP'', ''EURGBP.a'', ''EURGBPm'', ''EURGBP.'']),
     (''USDCAD'', [''USDCAD'', ''USDCAD.a'', ''USDCADm'', ''USDCAD.'']),
     (''AUDNZD'', [''AUDNZD'', ''AUDNZD.a'', ''AUDNZDm'', ''AUDNZD.'']),
     (''US30'', [''US30'', ''US30.cash'', ''US30Cash'', ''USA30'', ''DJ30'', ''US30.'']),
     (''XAUUSD'', [''XAUUSD'', ''XAUUSD.a'', ''XAUUSDm'', ''GOLD'', ''XAUUSD.''])]"

datatype save_format = FmtParquet | FmtCsv | FmtBoth

definition SAVE_FORMAT :: save_format where
  "SAVE_FORMAT = FmtParquet"

section \<open>The pandas operations the scripts use\<close>

text \<open>
  \<open>df.drop_duplicates(subset=[key], keep="first")\<close>: a row is dropped when its key was
  seen in an earlier row.
\<close>

primrec keep_first :: "('a \<Rightarrow> int) \<Rightarrow> int list \<Rightarrow> 'a list \<Rightarrow> 'a list" where
  "keep_first key seen [] = []"
| "keep_first key seen (x # xs) =
     (if key x \<in> set seen then keep_first key seen xs
      else x # keep_first key (key x # seen) xs)"

definition drop_duplicates_first :: "('a \<Rightarrow> int) \<Rightarrow> 'a list \<Rightarrow> 'a list" where
  "drop_duplicates_first key df = keep_first key [] df"

text \<open>
  \<open>df.drop_duplicates(subset=[key], keep="last")\<close>: a row is dropped when its key occurs
  again in a later row.
\<close>

primrec drop_duplicates_last :: "('a \<Rightarrow> int) \<Rightarrow> 'a list \<Rightarrow> 'a list" where
  "drop_duplicates_last key [] = []"
| "drop_duplicates_last key (x # xs) =
     (if key x \<in> set (map key xs) then drop_duplicates_last key xs
      else x # drop_duplicates_last key xs)"

text \<open>
  \<open>df.sort_values(key).reset_index(drop=True)\<close>. pandas sorts with quicksort, which is not
  stable; the model is the insertion sort of the list library. The two agree on the order
  of the keys always, and on the rows whenever the keys are distinct, which is how the
  collection and merge paths call it (after \<open>drop_duplicates\<close>).
\<close>

definition sort_values :: "('a \<Rightarrow> int) \<Rightarrow> 'a list \<Rightarrow> 'a list" where
  "sort_values key df = sort_key key df"

section \<open>mt5\_utils.py: merge\<close>

text \<open>
  \<open>append_new_data(existing_df, new_df)\<close>: concatenate, drop duplicate timestamps keeping
  the last occurrence, sort by timestamp. The printed counts are not part of the value.
\<close>

definition append_new_data :: "bar list \<Rightarrow> bar list \<Rightarrow> bar list" where
  "append_new_data existing_df new_df =
     (let combined = existing_df @ new_df;
          combined = drop_duplicates_last timestamp combined;
          combined = sort_values timestamp combined
      in combined)"

section \<open>The trading terminal\<close>

text \<open>
  The MetaTrader5 package is an external collaborator: a session with hidden state \<open>'s\<close>.
  \<open>symbol_info\<close> answers \<open>None\<close> for an unknown symbol and otherwise the symbol's
  \<open>visible\<close> flag; \<open>symbol_select\<close> enables a symbol and reports whether that worked;
  the two \<open>copy_rates\<close> calls answer \<open>None\<close> or an array of rates.
\<close>

type_synonym timeframe = nat

record 's terminal =
  symbol_info :: "'s \<Rightarrow> string \<Rightarrow> bool option"
  symbol_select :: "'s \<Rightarrow> string \<Rightarrow> bool \<times> 's"
  copy_rates_from_pos :: "'s \<Rightarrow> string \<Rightarrow> timeframe \<Rightarrow> int \<Rightarrow> int \<Rightarrow> rate list option \<times> 's"
  copy_rates_from :: "'s \<Rightarrow> string \<Rightarrow> timeframe \<Rightarrow> int \<Rightarrow> int \<Rightarrow> rate list option \<times> 's"

text \<open>Every bar request sent to the terminal is recorded, in order, beside its state.\<close>

datatype request =
  FromPos string timeframe int int
| FromTime string timeframe int int

record 's session =
  terminal_state :: 's
  requests :: "request list"

definition fetch_from_pos ::
  "'s terminal \<Rightarrow> 's session \<Rightarrow> string \<Rightarrow> timeframe \<Rightarrow> int \<Rightarrow> int \<Rightarrow> rate list option \<times> 's session"
where
  "fetch_from_pos mt5 s symb tf pos cnt =
     (case copy_rates_from_pos mt5 (terminal_state s) symb tf pos cnt of
        (rates, st) \<Rightarrow>
          (rates, \<lparr>terminal_state = st, requests = requests s @ [FromPos symb tf pos cnt]\<rparr>))"

definition fetch_from ::
  "'s terminal \<Rightarrow> 's session \<Rightarrow> string \<Rightarrow> timeframe \<Rightarrow> int \<Rightarrow> int \<Rightarrow> rate list option \<times> 's session"
where
  "fetch_from mt5 s symb tf anchor cnt =
     (case copy_rates_from mt5 (terminal_state s) symb tf anchor cnt of
        (rates, st) \<Rightarrow>
          (rates, \<lparr>terminal_state = st, requests = requests s @ [FromTime symb tf anchor cnt]\<rparr>))"

section \<open>mt5\_utils.py: symbol resolution\<close>

text \<open>The loop of \<open>find_symbol\<close> over the alternative spellings, first match wins.\<close>

fun find_alternative :: "'s terminal \<Rightarrow> 's \<Rightarrow> string list \<Rightarrow> string option \<times> 's" where
  "find_alternative mt5 st [] = (None, st)"
| "find_alternative mt5 st (alt_symbol # alts) =
     (case symbol_info mt5 st alt_symbol of
        None \<Rightarrow> find_alternative mt5 st alts
      | Some visible \<Rightarrow>
          if \<not> visible then
            (case symbol_select mt5 st alt_symbol of
               (True, st') \<Rightarrow> (Some alt_symbol, st')
             | (False, st') \<Rightarrow> find_alternative mt5 st' alts)
          else (Some alt_symbol, st))"

definition find_symbol :: "'s terminal \<Rightarrow> 's session \<Rightarrow> string \<Rightarrow> string option \<times> 's session" where
  "find_symbol mt5 s symbol =
     (let alternatives =
            (case map_of SYMBOL_ALTERNATIVES symbol of None \<Rightarrow> [symbol] | Some alts \<Rightarrow> alts)
      in case find_alternative mt5 (terminal_state s) alternatives of
           (found, st) \<Rightarrow> (found, s\<lparr>terminal_state := st\<rparr>))"

section \<open>mt5\_utils.py: historical backfill\<close>

text \<open>\<open>df["time"].min()\<close> of a non-empty array with first element \<open>r\<close> and rest \<open>rs\<close>.\<close>

definition min_time :: "rate \<Rightarrow> rate list \<Rightarrow> int" where
  "min_time r rs = fold min (map time rs) (time r)"

text \<open>
  Step 2 of \<open>collect_maximum_data\<close>: the loop \<open>for attempt in range(max_attempts)\<close>, by
  recursion on the attempts that remain. The anchor is one minute before the earliest
  time held; \<open>break\<close> on an absent or empty chunk and on a chunk that is not older.
\<close>

fun backfill_loop ::
  "'s terminal \<Rightarrow> string \<Rightarrow> timeframe \<Rightarrow> nat \<Rightarrow> 's session \<Rightarrow> rate list \<Rightarrow> int \<Rightarrow> rate list \<times> 's session"
where
  "backfill_loop mt5 symb tf 0 s all_rates earliest_time = (all_rates, s)"
| "backfill_loop mt5 symb tf (Suc attempts) s all_rates earliest_time =
     (case fetch_from mt5 s symb tf (earliest_time - 60) MAX_BARS_PER_REQUEST of
        (None, s') \<Rightarrow> (all_rates, s')
      | (Some [], s') \<Rightarrow> (all_rates, s')
      | (Some (r # rs), s') \<Rightarrow>
          (let new_earliest_time = min_time r rs in
           if new_earliest_time \<ge> earliest_time then (all_rates, s')
           else
             (let new_data = filter (\<lambda>x. time x < earliest_time) (r # rs)
              in backfill_loop mt5 symb tf attempts s' (new_data @ all_rates) new_earliest_time)))"

text \<open>
  Steps 1 and 2 together: the bars accumulated before the frame is built, \<open>None\<close> when
  the symbol does not resolve or the first chunk is absent or empty. The second
  \<open>symbol_info\<close> call of the source only feeds the printed name and description.
\<close>

definition collect_all_rates ::
  "'s terminal \<Rightarrow> 's session \<Rightarrow> string \<Rightarrow> timeframe \<Rightarrow> rate list option \<times> 's session"
where
  "collect_all_rates mt5 s symbol tf =
     (case find_symbol mt5 s symbol of
        (None, s1) \<Rightarrow> (None, s1)
      | (Some actual_symbol, s1) \<Rightarrow>
          (case fetch_from_pos mt5 s1 actual_symbol tf 0 MAX_BARS_PER_REQUEST of
             (None, s2) \<Rightarrow> (None, s2)
           | (Some [], s2) \<Rightarrow> (None, s2)
           | (Some (r # rs), s2) \<Rightarrow>
               (case backfill_loop mt5 actual_symbol tf MAX_HISTORICAL_ATTEMPTS s2 (r # rs)
                       (min_time r rs) of
                  (all_rates, s3) \<Rightarrow> (Some all_rates, s3))))"

text \<open>
  The renaming and column selection: \<open>time\<close> becomes \<open>timestamp\<close>, \<open>tick_volume\<close> becomes
  \<open>volume\<close>, and the columns kept are \<open>OUTPUT_COLUMNS\<close> with the two optional ones, which
  a terminal array always has.
\<close>

definition to_bar :: "rate \<Rightarrow> bar" where
  "to_bar r =
     \<lparr>timestamp = time r, b_open = r_open r, b_high = r_high r, b_low = r_low r,
      b_close = r_close r, volume = tick_volume r, spread = r_spread r,
      real_volume = r_real_volume r\<rparr>"

text \<open>
  The rest of \<open>collect_maximum_data\<close>: build the frame, drop duplicate timestamps keeping
  the first when \<open>REMOVE_DUPLICATES\<close>, sort by timestamp, rename and select the columns.
\<close>

definition build_frame :: "rate list \<Rightarrow> bar list" where
  "build_frame all_rates =
     (let df = all_rates;
          df = (if REMOVE_DUPLICATES then drop_duplicates_first time df else df);
          df = sort_values time df
      in map to_bar df)"

definition collect_maximum_data ::
  "'s terminal \<Rightarrow> 's session \<Rightarrow> string \<Rightarrow> timeframe \<Rightarrow> bar list option \<times> 's session"
where
  "collect_maximum_data mt5 s symbol tf =
     (case collect_all_rates mt5 s symbol tf of
        (None, s') \<Rightarrow> (None, s')
      | (Some all_rates, s') \<Rightarrow> (Some (build_frame all_rates), s'))"

section \<open>A scripted terminal\<close>

text \<open>
  The deterministic in-memory fake of the backfill property: its state is the list of
  answers still to give; each bar request, whatever its arguments, takes the next answer,
  and \<open>None\<close> once the script is used up. Every symbol resolves and is visible.
\<close>

definition scripted :: "rate list option list terminal" where
  "scripted =
     \<lparr>symbol_info = (\<lambda>st symb. Some True),
      symbol_select = (\<lambda>st symb. (True, st)),
      copy_rates_from_pos =
        (\<lambda>st symb tf pos cnt. case st of [] \<Rightarrow> (None, []) | a # rest \<Rightarrow> (a, rest)),
      copy_rates_from =
        (\<lambda>st symb tf anchor cnt. case st of [] \<Rightarrow> (None, []) | a # rest \<Rightarrow> (a, rest))\<rparr>"

text \<open>Chunks that are non-empty, each strictly older than all the chunks before it.\<close>

fun progressively_older :: "rate list list \<Rightarrow> bool" where
  "progressively_older [] = True"
| "progressively_older (c # cs) =
     (c \<noteq> [] \<and> (\<forall>d \<in> set cs. \<forall>a \<in> set d. \<forall>b \<in> set c. time a < time b)
      \<and> progressively_older cs)"

text \<open>The script of \<open>k\<close> chunks followed by one empty chunk, and the fresh session on it.\<close>

definition chunk_script :: "rate list list \<Rightarrow> rate list option list session" where
  "chunk_script chunks = \<lparr>terminal_state = map Some chunks @ [Some []], requests = []\<rparr>"

section \<open>Files\<close>

text \<open>
  Paths are strings relative to \<open>BASE_DIR\<close>. A file holds a readable parquet table, a csv
  table, or bytes that \<open>pd.read_parquet\<close> rejects. Beside the contents, the file system
  records every operation issued on it, in order.
\<close>

type_synonym path = string

datatype artifact = Parquet "bar list" | Csv "bar list" | Garbage

datatype fs_op = Rename path path | WriteParquet path | WriteCsv path | Unlink path

record fsys =
  contents :: "path \<rightharpoonup> artifact"
  journal :: "fs_op list"

datatype error = FileNotFoundError | FileExistsError | OSError | ReadError | UnboundLocalError

text \<open>
  What the run cannot decide: the clock, the float arithmetic of the bar count
  \<open>int(days * 24 * 60 * 0.7) + 100\<close>, whether renaming onto an existing file replaces it
  (POSIX) or raises (Windows), and whether each write succeeds; a failed write leaves
  nothing or anything at its path.
\<close>

datatype write_outcome = WriteOk | WriteFails "artifact option"

record env =
  now :: int
  bars_to_fetch :: "int \<Rightarrow> int"
  rename_replaces :: bool
  parquet_write :: write_outcome
  csv_write :: write_outcome

definition FX_DIR :: path where
  "FX_DIR = ''data/fx''"

definition INDICES_DIR :: path where
  "INDICES_DIR = ''data/indices''"

text \<open>\<open>str.lower()\<close> on ASCII letters.\<close>

definition lower_char :: "char \<Rightarrow> char" where
  "lower_char c =
     (case map_of (zip ''ABCDEFGHIJKLMNOPQRSTUVWXYZ'' ''abcdefghijklmnopqrstuvwxyz'') c of
        None \<Rightarrow> c | Some l \<Rightarrow> l)"

definition lower :: "string \<Rightarrow> string" where
  "lower str = map lower_char str"

definition get_symbol_category :: "string \<Rightarrow> string" where
  "get_symbol_category symbol =
     (if symbol \<in> set FX_SYMBOLS then ''fx''
      else if symbol \<in> set INDEX_SYMBOLS then ''indices''
      else ''fx'')"

definition get_data_filepath :: "string \<Rightarrow> string option \<Rightarrow> path" where
  "get_data_filepath symbol category =
     (let category = (case category of None \<Rightarrow> get_symbol_category symbol | Some c \<Rightarrow> c);
          base_dir = (if category = ''fx'' then FX_DIR else INDICES_DIR)
      in base_dir @ ''/'' @ lower symbol @ ''_1m.parquet'')"

text \<open>
  \<open>Path.suffix\<close> and \<open>Path.with_suffix\<close>: the suffix starts at the last dot of the final
  component, when that dot is neither its first nor its last character.
\<close>

definition path_suffix :: "path \<Rightarrow> string" where
  "path_suffix p =
     (let name = rev (takeWhile (\<lambda>c. c \<noteq> CHR ''/'') (rev p));
          ext = rev (takeWhile (\<lambda>c. c \<noteq> CHR ''.'') (rev name))
      in if ext \<noteq> [] \<and> length ext + 1 < length name then CHR ''.'' # ext else [])"

definition with_suffix :: "path \<Rightarrow> string \<Rightarrow> path" where
  "with_suffix p suffix = take (length p - length (path_suffix p)) p @ suffix"

definition path_exists :: "fsys \<Rightarrow> path \<Rightarrow> bool" where
  "path_exists fs p = (contents fs p \<noteq> None)"

definition rename_path :: "env \<Rightarrow> fsys \<Rightarrow> path \<Rightarrow> path \<Rightarrow> (error + unit) \<times> fsys" where
  "rename_path e fs src dst =
     (let fs' = fs\<lparr>journal := journal fs @ [Rename src dst]\<rparr>
      in case contents fs src of
           None \<Rightarrow> (Inl FileNotFoundError, fs')
         | Some a \<Rightarrow>
             if path_exists fs dst \<and> \<not> rename_replaces e then (Inl FileExistsError, fs')
             else (Inr (), fs'\<lparr>contents := ((contents fs)(src := None))(dst \<mapsto> a)\<rparr>))"

definition unlink :: "fsys \<Rightarrow> path \<Rightarrow> fsys" where
  "unlink fs p = fs\<lparr>contents := (contents fs)(p := None), journal := journal fs @ [Unlink p]\<rparr>"

definition to_parquet :: "env \<Rightarrow> fsys \<Rightarrow> bar list \<Rightarrow> path \<Rightarrow> (error + unit) \<times> fsys" where
  "to_parquet e fs df p =
     (let fs' = fs\<lparr>journal := journal fs @ [WriteParquet p]\<rparr>
      in case parquet_write e of
           WriteOk \<Rightarrow> (Inr (), fs'\<lparr>contents := (contents fs)(p \<mapsto> Parquet df)\<rparr>)
         | WriteFails left \<Rightarrow> (Inl OSError, fs'\<lparr>contents := (contents fs)(p := left)\<rparr>))"

definition to_csv :: "env \<Rightarrow> fsys \<Rightarrow> bar list \<Rightarrow> path \<Rightarrow> (error + unit) \<times> fsys" where
  "to_csv e fs df p =
     (let fs' = fs\<lparr>journal := journal fs @ [WriteCsv p]\<rparr>
      in case csv_write e of
           WriteOk \<Rightarrow> (Inr (), fs'\<lparr>contents := (contents fs)(p \<mapsto> Csv df)\<rparr>)
         | WriteFails left \<Rightarrow> (Inl OSError, fs'\<lparr>contents := (contents fs)(p := left)\<rparr>))"

text \<open>
  \<open>save_dataframe(df, filepath, save_format)\<close>; directories and the printed sizes are not
  modelled. An exception of the parquet write ends the call before the csv write.
\<close>

definition save_dataframe ::
  "env \<Rightarrow> fsys \<Rightarrow> bar list \<Rightarrow> path \<Rightarrow> save_format \<Rightarrow> (error + unit) \<times> fsys"
where
  "save_dataframe e fs df filepath fmt =
     (case (if fmt = FmtParquet \<or> fmt = FmtBoth
            then to_parquet e fs df (with_suffix filepath ''.parquet'')
            else (Inr (), fs)) of
        (Inl err, fs1) \<Rightarrow> (Inl err, fs1)
      | (Inr u, fs1) \<Rightarrow>
          if fmt = FmtCsv \<or> fmt = FmtBoth
          then to_csv e fs1 df (with_suffix filepath ''.csv'')
          else (Inr (), fs1))"

text \<open>\<open>load_existing_data(filepath)\<close>: \<open>None\<close> without a file; reading may raise.\<close>

definition load_existing_data :: "fsys \<Rightarrow> path \<Rightarrow> error + bar list option" where
  "load_existing_data fs filepath =
     (case contents fs filepath of
        None \<Rightarrow> Inr None
      | Some (Parquet df) \<Rightarrow> Inr (Some df)
      | Some other \<Rightarrow> Inl ReadError)"

section \<open>update\_weekly\_data.py\<close>

text \<open>
  \<open>collect_recent_data(symbol, timeframe, days)\<close>: the most recent bars by position,
  filtered to those at or after \<open>now - days\<close>, renamed and column-reduced.
\<close>

definition collect_recent_data ::
  "'s terminal \<Rightarrow> env \<Rightarrow> 's session \<Rightarrow> string \<Rightarrow> timeframe \<Rightarrow> int \<Rightarrow> bar list option \<times> 's session"
where
  "collect_recent_data mt5 e s symbol tf days =
     (case find_symbol mt5 s symbol of
        (None, s1) \<Rightarrow> (None, s1)
      | (Some actual_symbol, s1) \<Rightarrow>
          (let from_date = now e - days * 86400
           in case fetch_from_pos mt5 s1 actual_symbol tf 0 (bars_to_fetch e days) of
                (None, s2) \<Rightarrow> (None, s2)
              | (Some [], s2) \<Rightarrow> (None, s2)
              | (Some rates, s2) \<Rightarrow>
                  (Some (map to_bar (filter (\<lambda>r. time r \<ge> from_date) rates)), s2)))"

text \<open>
  \<open>(datetime.now() - existing_df['timestamp'].max()).total_seconds() / 3600\<close>; on an empty
  frame the maximum is NaT and the value NaN (\<open>None\<close>), which is not below any threshold.
\<close>

definition hours_since_update :: "env \<Rightarrow> bar list \<Rightarrow> real option" where
  "hours_since_update e existing_df =
     (case existing_df of
        [] \<Rightarrow> None
      | b # bs \<Rightarrow>
          (let latest_timestamp = fold max (map timestamp bs) (timestamp b)
           in Some (real_of_int (now e - latest_timestamp) / 3600)))"

record 's world =
  terminal_session :: "'s session"
  disk :: fsys

text \<open>
  The persistence step of \<open>update_symbol\<close>: back up the old file, save, remove the backup.
  \<open>backup_path\<close> is bound only when the file exists.
\<close>

definition replace_dataset :: "env \<Rightarrow> fsys \<Rightarrow> path \<Rightarrow> bar list \<Rightarrow> (error + bool) \<times> fsys" where
  "replace_dataset e fs filepath merged_df =
     (case (if path_exists fs filepath
            then (case rename_path e fs filepath (with_suffix filepath ''.parquet.backup'') of
                    (r, fs1) \<Rightarrow> (r, Some (with_suffix filepath ''.parquet.backup''), fs1))
            else (Inr (), None, fs)) of
        (Inl err, backup_path, fs1) \<Rightarrow> (Inl err, fs1)
      | (Inr u, backup_path, fs1) \<Rightarrow>
          (case save_dataframe e fs1 merged_df filepath SAVE_FORMAT of
             (Inl err, fs2) \<Rightarrow> (Inl err, fs2)
           | (Inr u', fs2) \<Rightarrow>
               (case backup_path of
                  None \<Rightarrow> (Inl UnboundLocalError, fs2)
                | Some bp \<Rightarrow> (Inr True, if path_exists fs2 bp then unlink fs2 bp else fs2))))"

definition update_symbol ::
  "'s terminal \<Rightarrow> env \<Rightarrow> 's world \<Rightarrow> string \<Rightarrow> string option \<Rightarrow> timeframe \<Rightarrow> int \<Rightarrow> bool
     \<Rightarrow> (error + bool) \<times> 's world"
where
  "update_symbol mt5 e w symbol category tf days force =
     (let filepath = get_data_filepath symbol category
      in case load_existing_data (disk w) filepath of
           Inl err \<Rightarrow> (Inl err, w)
         | Inr None \<Rightarrow> (Inr False, w)
         | Inr (Some existing_df) \<Rightarrow>
             if \<not> force \<and> (case hours_since_update e existing_df of
                                None \<Rightarrow> False | Some h \<Rightarrow> h < 12)
             then (Inr True, w)
             else
               (case collect_recent_data mt5 e (terminal_session w) symbol tf days of
                  (None, s') \<Rightarrow> (Inr False, w\<lparr>terminal_session := s'\<rparr>)
                | (Some [], s') \<Rightarrow> (Inr False, w\<lparr>terminal_session := s'\<rparr>)
                | (Some new_df, s') \<Rightarrow>
                    (let merged_df = append_new_data existing_df new_df;
                         new_rows = int (length merged_df) - int (length existing_df)
                     in if new_rows \<le> 0 then (Inr True, w\<lparr>terminal_session := s'\<rparr>)
                        else
                          (case replace_dataset e (disk w) filepath merged_df of
                             (r, fs') \<Rightarrow> (r, \<lparr>terminal_session = s', disk = fs'\<rparr>)))))"

section \<open>check\_data.py\<close>







section \<open>Example data\<close>

text \<open>A rate and a bar whose four prices are all \<open>p\<close>, with no volume.\<close>

definition flat_rate :: "int \<Rightarrow> real \<Rightarrow> rate" where
  "flat_rate t p =
     \<lparr>time = t, r_open = Some p, r_high = Some p, r_low = Some p, r_close = Some p,
      tick_volume = 0, r_spread = 0, r_real_volume = 0\<rparr>"

definition flat_bar :: "int \<Rightarrow> real \<Rightarrow> bar" where
  "flat_bar t p =
     \<lparr>timestamp = t, b_open = Some p, b_high = Some p, b_low = Some p, b_close = Some p,
      volume = 0, spread = 0, real_volume = 0\<rparr>"

text \<open>Eleven one-bar chunks, each a minute older than the one before.\<close>

definition eleven_chunks :: "rate list list" where
  "eleven_chunks =
     [[flat_rate 660 1], [flat_rate 600 1], [flat_rate 540 1], [flat_rate 480 1],
      [flat_rate 420 1], [flat_rate 360 1], [flat_rate 300 1], [flat_rate 240 1],
      [flat_rate 180 1], [flat_rate 120 1], [flat_rate 60 1]]"

text \<open>
  An environment whose clock reads 1000000 and a world whose only file is the EURUSD
  dataset, on the scripted terminal; a frame with a repeated timestamp, a missing price
  and a gap of several hours.
\<close>

definition example_env :: "write_outcome \<Rightarrow> env" where
  "example_env outcome =
     \<lparr>now = 1000000, bars_to_fetch = (\<lambda>days. 1008 * days + 100), rename_replaces = True,
      parquet_write = outcome, csv_write = WriteOk\<rparr>"

definition example_world :: "bar list \<Rightarrow> rate list option list \<Rightarrow> rate list option list world" where
  "example_world existing_df script =
     \<lparr>terminal_session = \<lparr>terminal_state = script, requests = []\<rparr>,
      disk = \<lparr>contents = [''data/fx/eurusd_1m.parquet'' \<mapsto> Parquet existing_df], journal = []\<rparr>\<rparr>"


section \<open>Facts about the pandas operations\<close>

lemma set_drop_duplicates_last:
  "key ` set (drop_duplicates_last key xs) = key ` set xs"
  by (induction xs) auto

lemma drop_duplicates_last_subset:
  "set (drop_duplicates_last key xs) \<subseteq> set xs"
  by (induction xs) auto

lemma distinct_drop_duplicates_last:
  "distinct (map key (drop_duplicates_last key xs))"
proof (induction xs)
  case Nil
  show ?case by simp
next
  case (Cons x xs)
  have "key x \<notin> key ` set xs \<Longrightarrow> key x \<notin> key ` set (drop_duplicates_last key xs)"
    by (simp add: set_drop_duplicates_last)
  with Cons show ?case by simp
qed

lemma filter_drop_duplicates_last:
  "filter (\<lambda>b. key b = t) (drop_duplicates_last key xs) =
     (if t \<in> set (map key xs) then [last (filter (\<lambda>b. key b = t) xs)] else [])"
proof (induction xs)
  case Nil
  show ?case by simp
next
  case (Cons x xs)
  show ?case
  proof (cases "key x \<in> set (map key xs)")
    case True
    with Cons show ?thesis by (auto simp: filter_empty_conv)
  next
    case False
    with Cons show ?thesis by (auto simp: filter_empty_conv)
  qed
qed

lemma drop_duplicates_last_id:
  "distinct (map key xs) \<Longrightarrow> drop_duplicates_last key xs = xs"
  by (induction xs) auto

lemma keep_first_keys:
  "key ` set (keep_first key seen xs) = key ` set xs - set seen"
  by (induction xs arbitrary: seen) auto

lemma keep_first_subset:
  "set (keep_first key seen xs) \<subseteq> set xs"
  by (induction xs arbitrary: seen) auto

lemma distinct_keep_first:
  "distinct (map key (keep_first key seen xs))"
proof (induction xs arbitrary: seen)
  case Nil
  show ?case by simp
next
  case (Cons x xs)
  have "key x \<notin> key ` set (keep_first key (key x # seen) xs)"
    by (simp add: keep_first_keys)
  with Cons show ?case by simp
qed

lemma filter_keep_first:
  "filter (\<lambda>b. key b = t) (keep_first key seen xs) =
     (if t \<in> set seen \<or> t \<notin> key ` set xs then []
      else [hd (filter (\<lambda>b. key b = t) xs)])"
proof (induction xs arbitrary: seen)
  case Nil
  show ?case by simp
next
  case (Cons x xs)
  have absent: "filter (\<lambda>b. key b = key x) (keep_first key (key x # seen) xs) = []"
    by (simp add: filter_empty_conv) (use keep_first_keys [of key "key x # seen" xs] in auto)
  show ?case
  proof (cases "key x \<in> set seen")
    case True
    with Cons [of seen] show ?thesis by auto
  next
    case False
    show ?thesis
    proof (cases "key x = t")
      case True
      with False absent show ?thesis by simp
    next
      case neq: False
      with False Cons [of "key x # seen"] show ?thesis by auto
    qed
  qed
qed

lemma keep_first_id:
  "distinct (map key xs) \<Longrightarrow> set (map key xs) \<inter> set seen = {} \<Longrightarrow> keep_first key seen xs = xs"
  by (induction xs arbitrary: seen) auto

lemma sort_values_keys_sorted: "sorted (map key (sort_values key xs))"
  by (simp add: sort_values_def)

lemma set_sort_values: "set (sort_values key xs) = set xs"
  by (simp add: sort_values_def)

lemma distinct_keys_sort_values:
  "distinct (map key xs) \<Longrightarrow> distinct (map key (sort_values key xs))"
  by (simp add: sort_values_def distinct_map)

lemma filter_sort_values:
  "filter P (sort_values key xs) = sort_values key (filter P xs)"
  by (simp add: sort_values_def filter_sort)

lemma sort_values_single: "sort_values key [x] = [x]"
  by (simp add: sort_values_def)

lemma sort_values_nil: "sort_values key [] = []"
  by (simp add: sort_values_def)

lemma sort_values_id: "sorted (map key xs) \<Longrightarrow> sort_values key xs = xs"
  by (simp add: sort_values_def sort_key_id_if_sorted)

lemma strict_sorted_dedup_sort:
  "distinct (map key xs) \<Longrightarrow> sorted_wrt (<) (map key (sort_values key xs))"
  by (simp add: strict_sorted_iff sort_values_keys_sorted distinct_keys_sort_values)

section \<open>Facts about the merge\<close>

lemma append_new_data_strict: "sorted_wrt (<) (map timestamp (append_new_data E N))"
  by (simp add: append_new_data_def Let_def strict_sorted_dedup_sort distinct_drop_duplicates_last)

lemma append_new_data_at:
  assumes "T \<in> timestamp ` set (E @ N)"
  shows "filter (\<lambda>b. timestamp b = T) (append_new_data E N) =
           [last (filter (\<lambda>b. timestamp b = T) (E @ N))]"
proof -
  have "filter (\<lambda>b. timestamp b = T) (append_new_data E N) =
          sort_values timestamp
            (filter (\<lambda>b. timestamp b = T) (drop_duplicates_last timestamp (E @ N)))"
    by (simp add: append_new_data_def Let_def filter_sort_values)
  also have "\<dots> = sort_values timestamp [last (filter (\<lambda>b. timestamp b = T) (E @ N))]"
    using assms by (simp only: filter_drop_duplicates_last set_map if_True)
  finally show ?thesis by (simp only: sort_values_single)
qed

lemma set_append_new_data: "set (append_new_data E N) \<subseteq> set E \<union> set N"
  using drop_duplicates_last_subset [of timestamp "E @ N"]
  by (simp add: append_new_data_def Let_def set_sort_values)

lemma keys_append_new_data:
  "timestamp ` set (append_new_data E N) = timestamp ` set E \<union> timestamp ` set N"
  by (simp add: append_new_data_def Let_def set_sort_values set_drop_duplicates_last image_Un)

section \<open>Facts about the frame built by the backfill\<close>

lemma timestamp_to_bar: "timestamp (to_bar r) = time r"
  by (simp add: to_bar_def)

lemma map_timestamp_to_bar: "map timestamp (map to_bar rs) = map time rs"
  by (simp add: timestamp_to_bar)

lemma filter_to_bar:
  "filter (\<lambda>b. timestamp b = t) (map to_bar rs) = map to_bar (filter (\<lambda>r. time r = t) rs)"
  by (simp add: filter_map comp_def timestamp_to_bar)

lemma build_frame_strict: "sorted_wrt (<) (map timestamp (build_frame rs))"
  by (simp add: build_frame_def Let_def REMOVE_DUPLICATES_def map_timestamp_to_bar
      drop_duplicates_first_def strict_sorted_dedup_sort distinct_keep_first del: map_map)

lemma build_frame_at:
  assumes "T \<in> time ` set rs"
  shows "filter (\<lambda>b. timestamp b = T) (build_frame rs) =
           [to_bar (hd (filter (\<lambda>r. time r = T) rs))]"
proof -
  have "filter (\<lambda>b. timestamp b = T) (build_frame rs) =
          map to_bar (sort_values time (filter (\<lambda>r. time r = T) (keep_first time [] rs)))"
    by (simp add: build_frame_def Let_def REMOVE_DUPLICATES_def drop_duplicates_first_def
        filter_to_bar filter_sort_values)
  also have "\<dots> = map to_bar (sort_values time [hd (filter (\<lambda>r. time r = T) rs)])"
    using assms by (simp add: filter_keep_first)
  finally show ?thesis by (simp only: sort_values_single list.map)
qed

lemma set_build_frame: "set (build_frame rs) \<subseteq> to_bar ` set rs"
  using keep_first_subset [of time "[]" rs]
  by (auto simp: build_frame_def Let_def REMOVE_DUPLICATES_def drop_duplicates_first_def
      set_sort_values)

section \<open>Facts about the scripted terminal\<close>

lemma scripted_sel [simp]:
  "symbol_info scripted st symb = Some True"
  "symbol_select scripted st symb = (True, st)"
  "copy_rates_from_pos scripted [] symb tf pos cnt = (None, [])"
  "copy_rates_from_pos scripted (a # rest) symb tf pos cnt = (a, rest)"
  "copy_rates_from scripted [] symb tf anchor cnt = (None, [])"
  "copy_rates_from scripted (a # rest) symb tf anchor cnt = (a, rest)"
  by (simp_all add: scripted_def)

lemma find_symbol_scripted:
  "find_symbol scripted s symbol =
     (Some (case map_of SYMBOL_ALTERNATIVES symbol of None \<Rightarrow> symbol | Some alts \<Rightarrow> hd alts), s)"
  by (auto simp: find_symbol_def SYMBOL_ALTERNATIVES_def split: option.splits)

text \<open>
  A run of the backfill on a script of two chunks, the first with a repeated timestamp:
  three requests, and the frame holds the first of the two bars at 120.
\<close>

lemma collect_all_rates_example:
  "collect_all_rates scripted
     (chunk_script [[flat_rate 120 1, flat_rate 180 2, flat_rate 120 3], [flat_rate 60 4]])
     ''EURUSD'' 1 =
   (Some [flat_rate 60 4, flat_rate 120 1, flat_rate 180 2, flat_rate 120 3],
    \<lparr>terminal_state = [],
     requests = [FromPos ''EURUSD'' 1 0 99999, FromTime ''EURUSD'' 1 60 99999,
                 FromTime ''EURUSD'' 1 0 99999]\<rparr>)"
  by (simp add: collect_all_rates_def find_symbol_scripted
      SYMBOL_ALTERNATIVES_def chunk_script_def fetch_from_pos_def fetch_from_def
      MAX_HISTORICAL_ATTEMPTS_def MAX_BARS_PER_REQUEST_def eval_nat_numeral min_time_def
      flat_rate_def)

lemma collect_maximum_data_example:
  "collect_maximum_data scripted
     (chunk_script [[flat_rate 120 1, flat_rate 180 2, flat_rate 120 3], [flat_rate 60 4]])
     ''EURUSD'' 1 =
   (Some [flat_bar 60 4, flat_bar 120 1, flat_bar 180 2],
    \<lparr>terminal_state = [],
     requests = [FromPos ''EURUSD'' 1 0 99999, FromTime ''EURUSD'' 1 60 99999,
                 FromTime ''EURUSD'' 1 0 99999]\<rparr>)"
  by (simp only: collect_maximum_data_def collect_all_rates_example)
     (simp add: flat_rate_def flat_bar_def build_frame_def REMOVE_DUPLICATES_def
      drop_duplicates_first_def sort_values_def to_bar_def)

section \<open>Merge precedence\<close>

text \<open>
  Claim C1. Merge precedence (last write wins): for every existing frame \<open>E\<close> and new
  frame \<open>N\<close> given to \<open>append_new_data\<close> and every timestamp \<open>T\<close> present in both, the
  merged frame has exactly one row at \<open>T\<close>, the (last) row of \<open>N\<close> at \<open>T\<close>; a row of \<open>E\<close>
  at \<open>T\<close> that is not also a row of \<open>N\<close> is not in the result.
\<close>

theorem append_new_data_last_write_wins:
  assumes "T \<in> set (map timestamp E)" and "T \<in> set (map timestamp N)"
  shows "filter (\<lambda>b. timestamp b = T) (append_new_data E N) =
           [last (filter (\<lambda>b. timestamp b = T) N)]
         \<and> (\<forall>e \<in> set E. timestamp e = T \<and> e \<notin> set N \<longrightarrow> e \<notin> set (append_new_data E N))"
proof -
  have ne: "filter (\<lambda>b. timestamp b = T) N \<noteq> []"
    using assms(2) by (auto simp: filter_empty_conv)
  have "T \<in> timestamp ` set (E @ N)" using assms(2) by auto
  then have "filter (\<lambda>b. timestamp b = T) (append_new_data E N) =
          [last (filter (\<lambda>b. timestamp b = T) (E @ N))]"
    by (rule append_new_data_at)
  with ne have at: "filter (\<lambda>b. timestamp b = T) (append_new_data E N) =
          [last (filter (\<lambda>b. timestamp b = T) N)]"
    by simp
  have "e \<notin> set (append_new_data E N)" if "timestamp e = T" "e \<notin> set N" for e
  proof
    assume "e \<in> set (append_new_data E N)"
    with that(1) have "e \<in> set (filter (\<lambda>b. timestamp b = T) (append_new_data E N))" by simp
    with at have "e = last (filter (\<lambda>b. timestamp b = T) N)" by simp
    with ne have "e \<in> set (filter (\<lambda>b. timestamp b = T) N)" using last_in_set by blast
    with that(2) show False by simp
  qed
  with at show ?thesis by blast
qed

theorem append_new_data_last_write_wins_witness:
  "120 \<in> set (map timestamp [flat_bar 60 1, flat_bar 120 2])
   \<and> 120 \<in> set (map timestamp [flat_bar 120 3, flat_bar 180 4])
   \<and> filter (\<lambda>b. timestamp b = 120)
        (append_new_data [flat_bar 60 1, flat_bar 120 2] [flat_bar 120 3, flat_bar 180 4])
      = [flat_bar 120 3]
   \<and> flat_bar 120 2 \<notin> set (append_new_data [flat_bar 60 1, flat_bar 120 2]
                                [flat_bar 120 3, flat_bar 180 4])"
  using append_new_data_last_write_wins
    [of 120 "[flat_bar 60 1, flat_bar 120 2]" "[flat_bar 120 3, flat_bar 180 4]"]
  by (simp add: flat_bar_def)

section \<open>Merge idempotence\<close>

text \<open>
  Claim C4. Merge idempotence: for every dataset \<open>D\<close> (a bar collection with the
  dataset invariant: timestamps unique and ascending), merging \<open>D\<close> with an empty
  collection of new bars gives \<open>D\<close> back: \<open>append_new_data D [] = D\<close>.
\<close>

theorem append_new_data_empty:
  assumes "sorted_wrt (<) (map timestamp D)"
  shows "append_new_data D [] = D"
proof -
  from assms have s: "sorted (map timestamp D)" and d: "distinct (map timestamp D)"
    by (simp_all add: strict_sorted_iff)
  show ?thesis
    by (simp add: append_new_data_def Let_def drop_duplicates_last_id [OF d] sort_values_id [OF s])
qed

theorem append_new_data_empty_witness:
  "sorted_wrt (<) (map timestamp [flat_bar 60 1, flat_bar 120 2])
   \<and> append_new_data [flat_bar 60 1, flat_bar 120 2] [] = [flat_bar 60 1, flat_bar 120 2]"
  using append_new_data_empty [of "[flat_bar 60 1, flat_bar 120 2]"]
  by (simp add: flat_bar_def)

section \<open>The dataset invariant\<close>

text \<open>
  Claim C5. Dataset invariant: the frame returned by \<open>append_new_data\<close>, for every pair
  of input frames, and every frame returned by \<open>collect_maximum_data\<close> (every result
  other than \<open>None\<close>) has strictly ascending timestamps: sorted ascending and pairwise
  unique.
\<close>

theorem dataset_invariant:
  "sorted_wrt (<) (map timestamp (append_new_data E N))
   \<and> (\<forall>df s'. collect_maximum_data mt5 s symbol tf = (Some df, s')
         \<longrightarrow> sorted_wrt (<) (map timestamp df))"
  by (auto simp: append_new_data_strict collect_maximum_data_def build_frame_strict
      split: prod.splits option.splits)

theorem dataset_invariant_witness:
  "sorted_wrt (<) (map timestamp
      (append_new_data [flat_bar 120 2, flat_bar 60 1, flat_bar 120 5] [flat_bar 120 3]))
   \<and> (\<exists>df s'. collect_maximum_data scripted
         (chunk_script [[flat_rate 120 1, flat_rate 180 2, flat_rate 120 3], [flat_rate 60 4]])
         ''EURUSD'' 1 = (Some df, s')
       \<and> sorted_wrt (<) (map timestamp df))"
proof -
  note inv = dataset_invariant
    [of "[flat_bar 120 2, flat_bar 60 1, flat_bar 120 5]" "[flat_bar 120 3]" scripted
        "chunk_script [[flat_rate 120 1, flat_rate 180 2, flat_rate 120 3], [flat_rate 60 4]]"
        "''EURUSD''" 1]
  from inv have merge: "sorted_wrt (<) (map timestamp
      (append_new_data [flat_bar 120 2, flat_bar 60 1, flat_bar 120 5] [flat_bar 120 3]))"
    by (rule conjunct1)
  from inv collect_maximum_data_example
  have "sorted_wrt (<) (map timestamp [flat_bar 60 4, flat_bar 120 1, flat_bar 180 2])"
    by blast
  with collect_maximum_data_example merge show ?thesis by blast
qed

section \<open>Backfill deduplication\<close>



section \<open>Backfill on a script of chunks\<close>

lemma min_time_Min: "min_time r rs = Min (time ` set (r # rs))"
proof -
  have "Min (set (time r # map time rs)) = fold min (map time rs) (time r)"
    by (rule Min.set_eq_fold)
  then show ?thesis by (simp add: min_time_def)
qed

lemma min_time_in: "min_time r rs \<in> time ` set (r # rs)"
  unfolding min_time_Min by (rule Min_in) simp_all

lemma min_time_le: "x \<in> set (r # rs) \<Longrightarrow> min_time r rs \<le> time x"
  unfolding min_time_Min by (rule Min_le) auto

lemma fetch_from_scripted:
  "fetch_from scripted \<lparr>terminal_state = a # rest, requests = rq\<rparr> symb tf anchor cnt =
     (a, \<lparr>terminal_state = rest, requests = rq @ [FromTime symb tf anchor cnt]\<rparr>)"
  by (simp add: fetch_from_def)

lemma fetch_from_pos_scripted:
  "fetch_from_pos scripted \<lparr>terminal_state = a # rest, requests = rq\<rparr> symb tf pos cnt =
     (a, \<lparr>terminal_state = rest, requests = rq @ [FromPos symb tf pos cnt]\<rparr>)"
  by (simp add: fetch_from_pos_def)

lemma backfill_loop_script:
  assumes "progressively_older cs"
    and "\<forall>d \<in> set cs. \<forall>a \<in> set d. time a < earliest"
    and "length cs < n"
  shows "\<exists>rq'. backfill_loop scripted symb tf n
            \<lparr>terminal_state = map Some cs @ [Some []], requests = rq\<rparr> acc earliest =
          (concat (rev cs) @ acc, \<lparr>terminal_state = [], requests = rq @ rq'\<rparr>)
          \<and> length rq' = length cs + 1"
  using assms
proof (induction cs arbitrary: n rq acc earliest)
  case Nil
  then obtain m where n: "n = Suc m" by (cases n) auto
  show ?case unfolding n by (simp add: fetch_from_scripted)
next
  case (Cons c cs)
  then obtain m where n: "n = Suc m" by (cases n) auto
  from Cons.prems(1) obtain r rs where c: "c = r # rs" by (cases c) auto
  from Cons.prems(2) have older: "\<forall>a \<in> set (r # rs). time a < earliest" by (simp add: c)
  from min_time_in [of r rs] obtain x where x: "x \<in> set (r # rs)" "min_time r rs = time x"
    by blast
  with older have lt: "min_time r rs < earliest" by auto
  have keep: "filter (\<lambda>x. time x < earliest) (r # rs) = r # rs"
    using older by (simp add: filter_id_conv del: filter.simps) 
  have po: "progressively_older cs" using Cons.prems(1) by simp
  have next_older: "\<forall>d \<in> set cs. \<forall>a \<in> set d. time a < min_time r rs"
    using Cons.prems(1) x unfolding c by auto
  have len: "length cs < m" using Cons.prems(3) n by simp
  from Cons.IH [OF po next_older len, of "rq @ [FromTime symb tf (earliest - 60) MAX_BARS_PER_REQUEST]" "(r # rs) @ acc"]
  obtain rq' where
    ih: "backfill_loop scripted symb tf m
           \<lparr>terminal_state = map Some cs @ [Some []],
              requests = rq @ [FromTime symb tf (earliest - 60) MAX_BARS_PER_REQUEST]\<rparr>
           ((r # rs) @ acc) (min_time r rs) =
         (concat (rev cs) @ (r # rs) @ acc,
          \<lparr>terminal_state = [],
             requests = (rq @ [FromTime symb tf (earliest - 60) MAX_BARS_PER_REQUEST]) @ rq'\<rparr>)"
    and l: "length rq' = length cs + 1"
    by blast
  have "backfill_loop scripted symb tf n
          \<lparr>terminal_state = map Some (c # cs) @ [Some []], requests = rq\<rparr> acc earliest =
        backfill_loop scripted symb tf m
           \<lparr>terminal_state = map Some cs @ [Some []],
              requests = rq @ [FromTime symb tf (earliest - 60) MAX_BARS_PER_REQUEST]\<rparr>
           ((r # rs) @ acc) (min_time r rs)"
    unfolding n c using lt keep
    by (simp add: fetch_from_scripted Let_def del: filter.simps)
  with ih l show ?case
    by (intro exI [of _ "FromTime symb tf (earliest - 60) MAX_BARS_PER_REQUEST # rq'"])
       (simp add: c)
qed

lemma collect_all_rates_script:
  assumes "progressively_older chunks" and "chunks \<noteq> []"
    and "length chunks \<le> MAX_HISTORICAL_ATTEMPTS"
  shows "\<exists>s'. collect_all_rates scripted (chunk_script chunks) symbol tf =
           (Some (concat (rev chunks)), s')
         \<and> length (requests s') = length chunks + 1 \<and> terminal_state s' = []"
proof -
  from assms(1,2) obtain r rs cs where ch: "chunks = (r # rs) # cs"
    by (cases chunks; cases "hd chunks") auto
  let ?a = "case map_of SYMBOL_ALTERNATIVES symbol of None \<Rightarrow> symbol | Some alts \<Rightarrow> hd alts"
  have po: "progressively_older cs" using assms(1) ch by simp
  from min_time_in [of r rs] obtain x where x: "x \<in> set (r # rs)" "min_time r rs = time x"
    by blast
  have older: "\<forall>d \<in> set cs. \<forall>a \<in> set d. time a < min_time r rs"
    using assms(1) x unfolding ch by auto
  have len: "length cs < MAX_HISTORICAL_ATTEMPTS" using assms(3) ch by simp
  from backfill_loop_script [OF po older len, of ?a tf "[FromPos ?a tf 0 MAX_BARS_PER_REQUEST]" "r # rs"]
  obtain rq' where
    loop: "backfill_loop scripted ?a tf MAX_HISTORICAL_ATTEMPTS
            \<lparr>terminal_state = map Some cs @ [Some []],
               requests = [FromPos ?a tf 0 MAX_BARS_PER_REQUEST]\<rparr> (r # rs) (min_time r rs) =
          (concat (rev cs) @ (r # rs),
           \<lparr>terminal_state = [], requests = [FromPos ?a tf 0 MAX_BARS_PER_REQUEST] @ rq'\<rparr>)"
    and l: "length rq' = length cs + 1"
    by blast
  show ?thesis
    unfolding ch
    by (simp add: collect_all_rates_def find_symbol_scripted chunk_script_def
        fetch_from_pos_scripted loop l)
qed

lemma set_build_frame_inj:
  assumes "inj_on time (set rs)"
  shows "set (build_frame rs) = to_bar ` set rs"
proof
  show "set (build_frame rs) \<subseteq> to_bar ` set rs" by (rule set_build_frame)
  show "to_bar ` set rs \<subseteq> set (build_frame rs)"
  proof
    fix b assume "b \<in> to_bar ` set rs"
    then obtain r where r: "r \<in> set rs" "b = to_bar r" by blast
    let ?f = "filter (\<lambda>x. time x = time r) rs"
    from r(1) have ne: "?f \<noteq> []" by (auto simp: filter_empty_conv)
    then have "hd ?f \<in> set ?f" by (rule hd_in_set)
    then have "hd ?f \<in> set rs" "time (hd ?f) = time r" by auto
    with assms r(1) have "hd ?f = r" by (auto dest: inj_onD)
    moreover have "filter (\<lambda>b. timestamp b = time r) (build_frame rs) = [to_bar (hd ?f)]"
      using r(1) by (intro build_frame_at) simp
    ultimately have "to_bar r \<in> set (filter (\<lambda>b. timestamp b = time r) (build_frame rs))"
      by simp
    with r(2) show "b \<in> set (build_frame rs)" by simp
  qed
qed

lemma keys_build_frame: "timestamp ` set (build_frame rs) = time ` set rs"
  using keep_first_keys [of time "[]" rs]
  by (simp add: build_frame_def Let_def REMOVE_DUPLICATES_def drop_duplicates_first_def
      set_sort_values image_image timestamp_to_bar)

lemma collect_maximum_data_no_chunk:
  "collect_maximum_data scripted (chunk_script []) symbol tf =
     (None, \<lparr>terminal_state = [],
             requests = [FromPos (case map_of SYMBOL_ALTERNATIVES symbol of
                                    None \<Rightarrow> symbol | Some alts \<Rightarrow> hd alts)
                           tf 0 MAX_BARS_PER_REQUEST]\<rparr>)"
  by (simp add: collect_maximum_data_def collect_all_rates_def find_symbol_scripted
      chunk_script_def fetch_from_pos_scripted)

text \<open>
  Claim C2, as amended. Backfill termination and completeness within the attempt budget:
  for every \<open>k \<le> MAX_HISTORICAL_ATTEMPTS\<close> (ten), on a terminal that answers \<open>k\<close>
  non-empty, progressively older, non-overlapping chunks and then an empty chunk,
  \<open>collect_maximum_data\<close> terminates after exactly \<open>k + 1\<close> bar requests, having used up
  the script. For \<open>k \<ge> 1\<close> it returns a frame that is strictly ascending, whose timestamps
  are exactly those of the \<open>k\<close> chunks, each of whose rows is a bar of a chunk, and that
  holds all the bars when no timestamp repeats among them; for \<open>k = 0\<close> it returns \<open>None\<close>.
\<close>

theorem backfill_terminates_within_budget:
  assumes "progressively_older chunks"
    and "length chunks \<le> MAX_HISTORICAL_ATTEMPTS"
  shows "length (requests (snd (collect_maximum_data scripted (chunk_script chunks) symbol tf)))
           = length chunks + 1
     \<and> terminal_state (snd (collect_maximum_data scripted (chunk_script chunks) symbol tf)) = []
     \<and> (chunks = [] \<longrightarrow>
           fst (collect_maximum_data scripted (chunk_script chunks) symbol tf) = None)
     \<and> (chunks \<noteq> [] \<longrightarrow>
          (\<exists>df. fst (collect_maximum_data scripted (chunk_script chunks) symbol tf) = Some df
             \<and> sorted_wrt (<) (map timestamp df)
             \<and> timestamp ` set df = time ` (\<Union>c \<in> set chunks. set c)
             \<and> set df \<subseteq> to_bar ` (\<Union>c \<in> set chunks. set c)
             \<and> (distinct (map time (concat chunks)) \<longrightarrow>
                  set df = to_bar ` (\<Union>c \<in> set chunks. set c))))"
proof (cases "chunks = []")
  case True
  then show ?thesis by (simp add: collect_maximum_data_no_chunk)
next
  case False
  from collect_all_rates_script [OF assms(1) False assms(2), of symbol tf] obtain s' where
    a: "collect_all_rates scripted (chunk_script chunks) symbol tf = (Some (concat (rev chunks)), s')"
    and l: "length (requests s') = length chunks + 1" and t: "terminal_state s' = []"
    by blast
  let ?df = "build_frame (concat (rev chunks))"
  have s: "set (concat (rev chunks)) = (\<Union>c \<in> set chunks. set c)" by auto
  have c: "collect_maximum_data scripted (chunk_script chunks) symbol tf = (Some ?df, s')"
    by (simp add: collect_maximum_data_def a)
  have inj: "set ?df = to_bar ` (\<Union>c \<in> set chunks. set c)"
    if "distinct (map time (concat chunks))"
  proof -
    from that have "inj_on time (set (concat chunks))" by (simp add: distinct_map)
    then have "inj_on time (set (concat (rev chunks)))" by simp
    from set_build_frame_inj [OF this] show ?thesis by (simp only: s)
  qed
  have k: "timestamp ` set ?df = time ` (\<Union>c \<in> set chunks. set c)"
    using keys_build_frame [of "concat (rev chunks)"] by (simp only: s)
  have u: "set ?df \<subseteq> to_bar ` (\<Union>c \<in> set chunks. set c)"
    using set_build_frame [of "concat (rev chunks)"] by (simp only: s)
  have "\<exists>df. fst (collect_maximum_data scripted (chunk_script chunks) symbol tf) = Some df
             \<and> sorted_wrt (<) (map timestamp df)
             \<and> timestamp ` set df = time ` (\<Union>c \<in> set chunks. set c)
             \<and> set df \<subseteq> to_bar ` (\<Union>c \<in> set chunks. set c)
             \<and> (distinct (map time (concat chunks)) \<longrightarrow>
                  set df = to_bar ` (\<Union>c \<in> set chunks. set c))"
    using build_frame_strict [of "concat (rev chunks)"] k u inj
    by (intro exI [of _ ?df]) (simp add: c)
  with False l t show ?thesis by (simp add: c)
qed

theorem backfill_terminates_within_budget_witness:
  "progressively_older [[flat_rate 120 1, flat_rate 180 2], [flat_rate 60 4]]
   \<and> length [[flat_rate 120 1, flat_rate 180 2], [flat_rate 60 4]] \<le> MAX_HISTORICAL_ATTEMPTS
   \<and> length (requests (snd (collect_maximum_data scripted
         (chunk_script [[flat_rate 120 1, flat_rate 180 2], [flat_rate 60 4]]) ''EURUSD'' 7))) = 3
   \<and> distinct (map time (concat [[flat_rate 120 1, flat_rate 180 2], [flat_rate 60 4]]))
   \<and> (\<exists>df. fst (collect_maximum_data scripted
         (chunk_script [[flat_rate 120 1, flat_rate 180 2], [flat_rate 60 4]]) ''EURUSD'' 7) = Some df
        \<and> set df = to_bar ` {flat_rate 120 1, flat_rate 180 2, flat_rate 60 4})"
proof -
  define cs where "cs = [[flat_rate 120 1, flat_rate 180 2], [flat_rate 60 4]]"
  define res where "res = collect_maximum_data scripted (chunk_script cs) ''EURUSD'' 7"
  have h1: "progressively_older cs"
    by (simp add: cs_def flat_rate_def)
  have h2: "cs \<noteq> []"
    by (simp add: cs_def)
  have h3: "length cs \<le> MAX_HISTORICAL_ATTEMPTS"
    by (simp add: cs_def MAX_HISTORICAL_ATTEMPTS_def)
  have h4: "distinct (map time (concat cs))"
    by (simp add: cs_def flat_rate_def)
  have u: "(\<Union>c \<in> set cs. set c) = {flat_rate 120 1, flat_rate 180 2, flat_rate 60 4}"
    unfolding cs_def by auto
  have n: "length cs + 1 = 3" by (simp add: cs_def)
  note t = backfill_terminates_within_budget [OF h1 h3, of "''EURUSD''" 7, folded res_def]
  from t have a: "length (requests (snd res)) = 3" unfolding n by (rule conjunct1)
  from t [THEN conjunct2, THEN conjunct2, THEN conjunct2, rule_format, OF h2]
  obtain df where r: "fst res = Some df"
    and d: "distinct (map time (concat cs)) \<longrightarrow> set df = to_bar ` (\<Union>c \<in> set cs. set c)"
    by (elim exE conjE)
  from d h4 have sd: "set df = to_bar ` {flat_rate 120 1, flat_rate 180 2, flat_rate 60 4}"
    unfolding u by (rule mp)
  from r sd have b: "\<exists>df. fst res = Some df \<and> set df = to_bar ` {flat_rate 120 1, flat_rate 180 2, flat_rate 60 4}"
    by (intro exI [of _ df] conjI)
  from h1 h3 a h4 b show ?thesis unfolding res_def cs_def by (intro conjI)
qed

text \<open>
  The claim as stated, for every \<open>k\<close>, fails at \<open>k = 11\<close>: the first request and the ten
  attempts of the loop take the eleven chunks, and the budget ends the loop before the
  empty chunk is asked for, so eleven requests are made, not twelve.
\<close>

theorem backfill_budget_counterexample:
  "progressively_older eleven_chunks \<and> length eleven_chunks = 11
   \<and> length (requests (snd (collect_maximum_data scripted (chunk_script eleven_chunks)
        ''EURUSD'' 1))) \<noteq> length eleven_chunks + 1"
  by (simp add: eleven_chunks_def collect_maximum_data_def collect_all_rates_def
      find_symbol_scripted SYMBOL_ALTERNATIVES_def chunk_script_def fetch_from_pos_def
      fetch_from_def MAX_HISTORICAL_ATTEMPTS_def MAX_BARS_PER_REQUEST_def eval_nat_numeral
      min_time_def flat_rate_def)

section \<open>Facts about paths and the persistence step\<close>

lemma path_suffix_1m: "path_suffix (d @ ''_1m.parquet'') = ''.parquet''"
  by (simp add: path_suffix_def Let_def)

lemma get_data_filepath_shape:
  "\<exists>d. get_data_filepath symbol category = d @ ''_1m.parquet''"
  by (simp add: get_data_filepath_def Let_def)

lemma with_suffix_parquet:
  "with_suffix (get_data_filepath symbol category) ''.parquet'' = get_data_filepath symbol category"
proof -
  obtain d where d: "get_data_filepath symbol category = d @ ''_1m.parquet''"
    using get_data_filepath_shape by blast
  show ?thesis unfolding d by (simp add: with_suffix_def path_suffix_1m)
qed

lemma with_suffix_backup:
  "with_suffix (get_data_filepath symbol category) ''.parquet.backup'' =
     get_data_filepath symbol category @ ''.backup''"
proof -
  obtain d where d: "get_data_filepath symbol category = d @ ''_1m.parquet''"
    using get_data_filepath_shape by blast
  show ?thesis unfolding d by (simp add: with_suffix_def path_suffix_1m)
qed

lemma backup_neq: "p @ ''.backup'' \<noteq> (p :: string)"
  by simp

lemma filepath_eurusd: "get_data_filepath ''EURUSD'' (Some ''fx'') = ''data/fx/eurusd_1m.parquet''"
  by (simp add: get_data_filepath_def Let_def FX_DIR_def lower_def lower_char_def)

lemma replace_dataset_exists:
  assumes "contents fs (get_data_filepath symbol category) = Some a"
  shows "replace_dataset e fs (get_data_filepath symbol category) merged_df =
    (let fp = get_data_filepath symbol category; bp = fp @ ''.backup'' in
     if path_exists fs bp \<and> \<not> rename_replaces e
     then (Inl FileExistsError, fs\<lparr>journal := journal fs @ [Rename fp bp]\<rparr>)
     else case parquet_write e of
       WriteOk \<Rightarrow>
         (Inr True,
          \<lparr>contents = (contents fs)(bp := None, fp \<mapsto> Parquet merged_df),
           journal = journal fs @ [Rename fp bp, WriteParquet fp, Unlink bp]\<rparr>)
     | WriteFails left \<Rightarrow>
         (Inl OSError,
          \<lparr>contents = (contents fs)(bp \<mapsto> a, fp := left),
           journal = journal fs @ [Rename fp bp, WriteParquet fp]\<rparr>))"
  using assms
  by (cases fs)
     (auto simp: replace_dataset_def path_exists_def with_suffix_backup with_suffix_parquet
      rename_path_def save_dataframe_def SAVE_FORMAT_def to_parquet_def unlink_def Let_def
      fun_upd_twist
      split: write_outcome.splits)

section \<open>Facts about the update of one symbol\<close>

lemma hours_since_update_Max:
  assumes "existing_df \<noteq> []"
  shows "hours_since_update e existing_df =
           Some (real_of_int (now e - Max (timestamp ` set existing_df)) / 3600)"
proof -
  from assms obtain b bs where eq: "existing_df = b # bs" by (cases existing_df) auto
  have "Max (set (timestamp b # map timestamp bs)) = fold max (map timestamp bs) (timestamp b)"
    by (rule Max.set_eq_fold)
  then show ?thesis by (simp add: hours_since_update_def eq)
qed

lemma find_symbol_requests:
  "find_symbol mt5 s symbol = (r, s1) \<Longrightarrow> requests s1 = requests s"
  by (auto simp: find_symbol_def Let_def split: prod.splits)

lemma collect_recent_data_unresolved:
  "find_symbol mt5 s symbol = (None, s1) \<Longrightarrow> collect_recent_data mt5 e s symbol tf days = (None, s1)"
  by (simp add: collect_recent_data_def)

lemma collect_recent_data_requests:
  assumes "find_symbol mt5 s symbol = (Some actual, s1)"
  shows "requests (snd (collect_recent_data mt5 e s symbol tf days)) =
           requests s @ [FromPos actual tf 0 (bars_to_fetch e days)]"
  using assms find_symbol_requests [OF assms]
  by (auto simp: collect_recent_data_def Let_def fetch_from_pos_def
      split: prod.splits option.splits list.splits)

lemma length_append_new_data:
  "length (append_new_data E N) = card (timestamp ` set (E @ N))"
proof -
  have "length (append_new_data E N) = length (map timestamp (drop_duplicates_last timestamp (E @ N)))"
    by (simp add: append_new_data_def Let_def sort_values_def)
  also have "\<dots> = card (set (map timestamp (drop_duplicates_last timestamp (E @ N))))"
    by (rule distinct_card [symmetric]) (rule distinct_drop_duplicates_last)
  also have "\<dots> = card (timestamp ` set (E @ N))"
    by (simp only: set_map set_drop_duplicates_last)
  finally show ?thesis .
qed

lemma no_new_rows:
  assumes "timestamp ` set N \<subseteq> timestamp ` set E"
  shows "length (append_new_data E N) \<le> length E"
proof -
  from assms have "timestamp ` set (E @ N) = timestamp ` set E" by auto
  then have "length (append_new_data E N) = card (timestamp ` set E)"
    by (simp only: length_append_new_data)
  also have "\<dots> \<le> card (set E)" by (rule card_image_le) simp
  also have "\<dots> \<le> length E" by (rule card_length)
  finally show ?thesis .
qed

lemma update_symbol_loaded:
  assumes "contents (disk w) (get_data_filepath symbol category) = Some (Parquet existing_df)"
  shows "update_symbol mt5 e w symbol category tf days force =
     (if \<not> force \<and> (case hours_since_update e existing_df of None \<Rightarrow> False | Some h \<Rightarrow> h < 12)
      then (Inr True, w)
      else
        (case collect_recent_data mt5 e (terminal_session w) symbol tf days of
           (None, s') \<Rightarrow> (Inr False, w\<lparr>terminal_session := s'\<rparr>)
         | (Some [], s') \<Rightarrow> (Inr False, w\<lparr>terminal_session := s'\<rparr>)
         | (Some new_df, s') \<Rightarrow>
             if int (length (append_new_data existing_df new_df)) - int (length existing_df) \<le> 0
             then (Inr True, w\<lparr>terminal_session := s'\<rparr>)
             else
               (case replace_dataset e (disk w) (get_data_filepath symbol category)
                       (append_new_data existing_df new_df) of
                  (r, fs') \<Rightarrow> (r, \<lparr>terminal_session = s', disk = fs'\<rparr>))))"
  using assms
  by (auto simp: update_symbol_def load_existing_data_def Let_def
      split: prod.splits option.splits list.splits)

lemma update_symbol_no_new_rows:
  assumes "contents (disk w) (get_data_filepath symbol category) = Some (Parquet existing_df)"
    and "collect_recent_data mt5 e (terminal_session w) symbol tf days = (Some new_df, s')"
    and "new_df \<noteq> []"
    and "timestamp ` set new_df \<subseteq> timestamp ` set existing_df"
  shows "fst (update_symbol mt5 e w symbol category tf days force) = Inr True
     \<and> disk (snd (update_symbol mt5 e w symbol category tf days force)) = disk w"
proof -
  from assms(3) obtain b bs where n: "new_df = b # bs" by (cases new_df) auto
  have "int (length (append_new_data existing_df new_df)) - int (length existing_df) \<le> 0"
    using no_new_rows [OF assms(4)] by simp
  then show ?thesis
    using assms(2) unfolding n
    by (simp add: update_symbol_loaded [OF assms(1)])
qed

section \<open>Runs of the update on the example world\<close>

lemmas ev = update_symbol_def load_existing_data_def filepath_eurusd example_world_def example_env_def
  hours_since_update_def collect_recent_data_def find_symbol_scripted SYMBOL_ALTERNATIVES_def
  fetch_from_pos_def flat_bar_def flat_rate_def to_bar_def append_new_data_def sort_values_def
  replace_dataset_def path_exists_def rename_path_def save_dataframe_def SAVE_FORMAT_def
  to_parquet_def unlink_def with_suffix_def path_suffix_def Let_def

lemma ex_fresh:
  "update_symbol scripted (example_env WriteOk) (example_world [flat_bar 990000 1] [Some [flat_rate 999000 2]])
     ''EURUSD'' (Some ''fx'') 1 7 False
   = (Inr True, example_world [flat_bar 990000 1] [Some [flat_rate 999000 2]])"
  by (simp add: ev)

lemma ex_empty_fetch:
  "update_symbol scripted (example_env WriteOk) (example_world [flat_bar 300000 1] [Some [flat_rate 300000 1]])
     ''EURUSD'' (Some ''fx'') 1 7 False
   = (Inr False, \<lparr>terminal_session = \<lparr>terminal_state = [], requests = [FromPos ''EURUSD'' 1 0 7156]\<rparr>,
        disk = disk (example_world [flat_bar 300000 1] [Some [flat_rate 300000 1]])\<rparr>)"
  by (simp add: ev)

lemma ex_recent_empty:
  "collect_recent_data scripted (example_env WriteOk)
      (terminal_session (example_world [flat_bar 300000 1] [Some [flat_rate 300000 1]])) ''EURUSD'' 1 7
   = (Some [], \<lparr>terminal_state = [], requests = [FromPos ''EURUSD'' 1 0 7156]\<rparr>)"
  by (simp add: ev)



lemma ex_recent_gap:
  "collect_recent_data scripted (example_env WriteOk)
      (terminal_session (example_world [flat_bar 990000 1, flat_bar 999000 1] [Some [flat_rate 995000 2]]))
      ''EURUSD'' 1 7
   = (Some [flat_bar 995000 2], \<lparr>terminal_state = [], requests = [FromPos ''EURUSD'' 1 0 7156]\<rparr>)"
  by (simp add: ev)

section \<open>Backup, then replace\<close>



section \<open>Freshness skip\<close>

text \<open>
  Claim C7. Freshness skip: when the existing dataset's maximum timestamp is less than
  twelve hours old, \<open>update_symbol\<close> without the force flag returns success and leaves
  the whole world as it was: no request to the terminal, no file operation. With the
  force flag the fetch path is taken whatever the age: a symbol that resolves gets exactly
  one bar request (the recent window), and one that does not resolve makes the update
  return failure rather than skip.
\<close>

theorem freshness_skip:
  assumes "contents (disk w) (get_data_filepath symbol category) = Some (Parquet existing_df)"
    and "existing_df \<noteq> []"
    and "real_of_int (now e - Max (timestamp ` set existing_df)) / 3600 < 12"
  shows "update_symbol mt5 e w symbol category tf days False = (Inr True, w)
     \<and> (\<forall>actual s1. find_symbol mt5 (terminal_session w) symbol = (Some actual, s1) \<longrightarrow>
          requests (terminal_session (snd (update_symbol mt5 e w symbol category tf days True))) =
            requests (terminal_session w) @ [FromPos actual tf 0 (bars_to_fetch e days)])
     \<and> (\<forall>s1. find_symbol mt5 (terminal_session w) symbol = (None, s1) \<longrightarrow>
          update_symbol mt5 e w symbol category tf days True =
            (Inr False, w\<lparr>terminal_session := s1\<rparr>))"
proof (intro conjI allI impI)
  show "update_symbol mt5 e w symbol category tf days False = (Inr True, w)"
    using assms(3) by (simp add: update_symbol_loaded [OF assms(1)] hours_since_update_Max [OF assms(2)])
next
  fix actual s1
  assume f: "find_symbol mt5 (terminal_session w) symbol = (Some actual, s1)"
  have "requests (terminal_session (snd (update_symbol mt5 e w symbol category tf days True))) =
          requests (snd (collect_recent_data mt5 e (terminal_session w) symbol tf days))"
    by (simp add: update_symbol_loaded [OF assms(1)]
        split: prod.splits option.splits list.splits)
  then show "requests (terminal_session (snd (update_symbol mt5 e w symbol category tf days True))) =
            requests (terminal_session w) @ [FromPos actual tf 0 (bars_to_fetch e days)]"
    by (simp only: collect_recent_data_requests [OF f])
next
  fix s1
  assume f: "find_symbol mt5 (terminal_session w) symbol = (None, s1)"
  show "update_symbol mt5 e w symbol category tf days True = (Inr False, w\<lparr>terminal_session := s1\<rparr>)"
    by (simp add: update_symbol_loaded [OF assms(1)] collect_recent_data_unresolved [OF f])
qed

theorem freshness_skip_witness:
  "contents (disk (example_world [flat_bar 990000 1] [Some [flat_rate 999000 2]]))
      (get_data_filepath ''EURUSD'' (Some ''fx'')) = Some (Parquet [flat_bar 990000 1])
   \<and> real_of_int (now (example_env WriteOk) - Max (timestamp ` set [flat_bar 990000 1])) / 3600 < 12
   \<and> update_symbol scripted (example_env WriteOk)
        (example_world [flat_bar 990000 1] [Some [flat_rate 999000 2]])
        ''EURUSD'' (Some ''fx'') 1 7 False
      = (Inr True, example_world [flat_bar 990000 1] [Some [flat_rate 999000 2]])
   \<and> requests (terminal_session (snd (update_symbol scripted (example_env WriteOk)
        (example_world [flat_bar 990000 1] [Some [flat_rate 999000 2]])
        ''EURUSD'' (Some ''fx'') 1 7 True)))
      = [FromPos ''EURUSD'' 1 0 7156]"
proof -
  define W where "W = example_world [flat_bar 990000 1] [Some [flat_rate 999000 2]]"
  define e where "e = example_env WriteOk"
  have h1: "contents (disk W) (get_data_filepath ''EURUSD'' (Some ''fx'')) =
              Some (Parquet [flat_bar 990000 1])"
    by (simp add: W_def filepath_eurusd example_world_def)
  have h2: "[flat_bar 990000 1] \<noteq> []" by simp
  have h3: "real_of_int (now e - Max (timestamp ` set [flat_bar 990000 1])) / 3600 < 12"
    by (simp add: e_def example_env_def flat_bar_def)
  have fs: "find_symbol scripted (terminal_session W) ''EURUSD'' = (Some ''EURUSD'', terminal_session W)"
    by (simp add: find_symbol_scripted SYMBOL_ALTERNATIVES_def)
  have rq: "requests (terminal_session W) @ [FromPos ''EURUSD'' 1 0 (bars_to_fetch e 7)] =
              [FromPos ''EURUSD'' 1 0 7156]"
    by (simp add: W_def e_def example_world_def example_env_def)
  note t = freshness_skip [OF h1 h2 h3, of scripted 1 7]
  from t have a: "update_symbol scripted e W ''EURUSD'' (Some ''fx'') 1 7 False = (Inr True, W)"
    by (rule conjunct1)
  from t [THEN conjunct2, THEN conjunct1, rule_format, OF fs]
  have b: "requests (terminal_session (snd (update_symbol scripted e W ''EURUSD'' (Some ''fx'') 1 7 True)))
             = [FromPos ''EURUSD'' 1 0 7156]"
    by (simp only: rq)
  from h1 h3 a b show ?thesis unfolding W_def e_def by (intro conjI)
qed

section \<open>No new data\<close>

text \<open>
  Claim C8, as amended. When the fetch yields at least one bar and none of the fetched
  bars has a timestamp beyond the existing dataset's maximum, \<open>update_symbol\<close> never
  returns failure: it returns success, unless a file operation of the rewrite raises.
  It is a no-op returning success when every fetched timestamp already occurs in the
  existing dataset, and it returns success after the rewrite whenever the rename and the
  write succeed.
\<close>

theorem no_new_data_not_a_failure:
  assumes "contents (disk w) (get_data_filepath symbol category) = Some (Parquet existing_df)"
    and "collect_recent_data mt5 e (terminal_session w) symbol tf days = (Some new_df, s')"
    and "new_df \<noteq> []"
    and "existing_df \<noteq> []"
    and "\<forall>b \<in> set new_df. timestamp b \<le> Max (timestamp ` set existing_df)"
    and "update_symbol mt5 e w symbol category tf days force = (res, w')"
  shows "(res = Inr True \<or> (\<exists>err. res = Inl err \<and> journal (disk w') \<noteq> journal (disk w)))
     \<and> (timestamp ` set new_df \<subseteq> timestamp ` set existing_df \<longrightarrow> res = Inr True \<and> disk w' = disk w)
     \<and> (parquet_write e = WriteOk \<and> (rename_replaces e \<or> \<not> path_exists (disk w)
            (with_suffix (get_data_filepath symbol category) ''.parquet.backup''))
          \<longrightarrow> res = Inr True)"
proof -
  from assms(3) obtain b bs where n: "new_df = b # bs" by (cases new_df) auto
  note rd = replace_dataset_exists [OF assms(1), of e "append_new_data existing_df new_df"]
  have first: "res = Inr True \<or> (\<exists>err. res = Inl err \<and> journal (disk w') \<noteq> journal (disk w))"
    using assms(6) assms(2) unfolding n
    by (auto simp: update_symbol_loaded [OF assms(1)] rd [unfolded n] Let_def
        split: if_splits write_outcome.splits)
  have second: "res = Inr True \<and> disk w' = disk w"
    if "timestamp ` set new_df \<subseteq> timestamp ` set existing_df"
    using update_symbol_no_new_rows [OF assms(1,2,3) that, of force] assms(6) by simp
  have third: "res = Inr True"
    if "parquet_write e = WriteOk" "rename_replaces e \<or> \<not> path_exists (disk w)
            (with_suffix (get_data_filepath symbol category) ''.parquet.backup'')"
    using assms(6) assms(2) that unfolding n
    by (auto simp: update_symbol_loaded [OF assms(1)] rd [unfolded n] Let_def with_suffix_backup
        split: if_splits)
  from first second third show ?thesis by blast
qed

theorem no_new_data_not_a_failure_witness:
  "collect_recent_data scripted (example_env WriteOk)
      (terminal_session (example_world [flat_bar 990000 1, flat_bar 999000 1] [Some [flat_rate 995000 2]]))
      ''EURUSD'' 1 7
     = (Some [flat_bar 995000 2], \<lparr>terminal_state = [], requests = [FromPos ''EURUSD'' 1 0 7156]\<rparr>)
   \<and> timestamp (flat_bar 995000 2) \<le> Max (timestamp ` set [flat_bar 990000 1, flat_bar 999000 1])
   \<and> fst (update_symbol scripted (example_env WriteOk)
        (example_world [flat_bar 990000 1, flat_bar 999000 1] [Some [flat_rate 995000 2]])
        ''EURUSD'' (Some ''fx'') 1 7 True) = Inr True"
proof -
  define W where "W = example_world [flat_bar 990000 1, flat_bar 999000 1] [Some [flat_rate 995000 2]]"
  define e where "e = example_env WriteOk"
  define run where "run = update_symbol scripted e W ''EURUSD'' (Some ''fx'') 1 7 True"
  have h1: "contents (disk W) (get_data_filepath ''EURUSD'' (Some ''fx'')) =
              Some (Parquet [flat_bar 990000 1, flat_bar 999000 1])"
    by (simp add: W_def filepath_eurusd example_world_def)
  have h2: "collect_recent_data scripted e (terminal_session W) ''EURUSD'' 1 7
     = (Some [flat_bar 995000 2], \<lparr>terminal_state = [], requests = [FromPos ''EURUSD'' 1 0 7156]\<rparr>)"
    unfolding W_def e_def by (rule ex_recent_gap)
  have h3: "[flat_bar 995000 2] \<noteq> []" by simp
  have h4: "[flat_bar 990000 1, flat_bar 999000 1] \<noteq> []" by simp
  have m: "timestamp (flat_bar 995000 2) \<le> Max (timestamp ` set [flat_bar 990000 1, flat_bar 999000 1])"
    by (simp add: flat_bar_def)
  then have h5: "\<forall>b \<in> set [flat_bar 995000 2].
      timestamp b \<le> Max (timestamp ` set [flat_bar 990000 1, flat_bar 999000 1])"
    by simp
  have h6: "update_symbol scripted e W ''EURUSD'' (Some ''fx'') 1 7 True = (fst run, snd run)"
    by (simp add: run_def)
  have ok: "parquet_write e = WriteOk \<and> (rename_replaces e \<or> \<not> path_exists (disk W)
            (with_suffix (get_data_filepath ''EURUSD'' (Some ''fx'')) ''.parquet.backup''))"
    by (simp add: e_def example_env_def)
  note t = no_new_data_not_a_failure [OF h1 h2 h3 h4 h5 h6]
  from t [THEN conjunct2, THEN conjunct2, rule_format, OF ok]
  have a: "fst run = Inr True" .
  from h2 m a show ?thesis unfolding run_def W_def e_def by (intro conjI)
qed

text \<open>
  The claim as stated fails when the fetch yields no bar at all: the terminal answers
  with a bar that is older than the requested window (and not beyond the existing
  maximum), the filtered frame is empty, and \<open>update_symbol\<close> returns failure.
\<close>

theorem no_new_data_counterexample:
  "fst (collect_recent_data scripted (example_env WriteOk)
      (terminal_session (example_world [flat_bar 300000 1] [Some [flat_rate 300000 1]])) ''EURUSD'' 1 7)
     = Some []
   \<and> fst (update_symbol scripted (example_env WriteOk)
        (example_world [flat_bar 300000 1] [Some [flat_rate 300000 1]])
        ''EURUSD'' (Some ''fx'') 1 7 False) = Inr False"
  unfolding ex_recent_empty ex_empty_fetch by simp

section \<open>No new timestamps, no write\<close>



section \<open>The quality checker's verdict\<close>






end
